theory Spec2Isabelle
  imports Complex_Main "HOL-Library.Multiset"
begin

section \<open>Fire risk visualisation script: visualize\_fire\_risk.py\<close>

text \<open>
  A JSON number read by \<open>json.load\<close> is a Python \<open>int\<close> or a finite \<open>float\<close>; both are
  read here as a \<^typ>\<open>real\<close>. The non-standard literals \<open>NaN\<close> and \<open>Infinity\<close> that
  \<open>json.load\<close> accepts are not values of this type.
\<close>

type_synonym score = real

subsection \<open>The colour classifier\<close>

text \<open>
  \<^verbatim>\<open>
  def get_color_mapping(score):
      if score < 33:
          return '#10B981'  # Green for low risk
      elif score < 66:
          return '#F59E0B'  # Yellow/Orange for medium risk
      else:
          return '#EF4444'  # Red for high risk
  \<close>
\<close>

definition get_color_mapping :: "score \<Rightarrow> string" where
  "get_color_mapping score =
     (if score < 33 then ''#10B981''
      else if score < 66 then ''#F59E0B''
      else ''#EF4444'')"

subsection \<open>Building records, errors, files and the world\<close>

text \<open>
  A building record is a Python dict. The script reads three of its keys; a field is
  \<open>None\<close> when the key is absent from the dict. The values have the types of the data
  model (name and type are strings, the score is numeric); the other keys of a record take
  no part in what is drawn.
\<close>

record building =
  building_name :: "string option"
  fire_risk_score :: "score option"
  building_type :: "string option"

text \<open>
  The exceptions the script can meet. \<open>ValueError\<close> stands for what \<open>json.load\<close>
  raises on a file that is not JSON text (\<open>JSONDecodeError\<close> and \<open>UnicodeDecodeError\<close> are
  both subclasses of it); \<open>OSError\<close> carries the message of a failed \<open>open\<close> for writing.
  All of them are subclasses of \<open>Exception\<close>, the class that the handler of \<open>main\<close> catches.
\<close>

datatype error =
    KeyError string
  | IndexError
  | FileNotFoundError string
  | ValueError
  | OSError string

text \<open>What \<open>str(e)\<close> gives in \<open>f"Couldn't create grouped chart: {e}"\<close>.\<close>

fun str_error :: "error \<Rightarrow> string" where
  "str_error (KeyError k) = [CHR 0x27] @ k @ [CHR 0x27]"
| "str_error IndexError = ''list index out of range''"
| "str_error (FileNotFoundError p) =
     ''[Errno 2] No such file or directory: '' @ [CHR 0x27] @ p @ [CHR 0x27]"
| "str_error ValueError = ''Expecting value''"
| "str_error (OSError m) = m"

datatype colour = Hex string | Husl nat nat
  \<comment> \<open>\<open>Husl i k\<close>: entry \<open>i\<close> of \<open>sns.color_palette("husl", k)\<close>\<close>

record bar =
  bar_x :: real
  bar_height :: "score option"  \<comment> \<open>\<open>None\<close>: the NaN pandas puts for a missing key\<close>
  bar_color :: colour

text \<open>
  What is drawn on a pyplot figure. Each chart function starts with \<open>plt.figure(...)\<close>,
  which makes a fresh current figure, so no drawing state flows from one chart to the next:
  a figure is built as a value and \<open>plt.savefig\<close> stores it. The constant decorations (axis
  labels, the two threshold lines, the three risk level texts, the grid, the legend) are
  left out.
\<close>

record figure =
  figsize :: "real \<times> real"
  bars :: "bar list"
  xticks :: "(real \<times> string option) list"
  title :: string
  annotations :: "(real \<times> score) list"

datatype content =
    JsonFile "building list"  \<comment> \<open>JSON text of an array of building records\<close>
  | PngFile figure
  | OtherFile

text \<open>
  The world the script runs in: the files of the working directory, for every path the
  message of the \<open>OSError\<close> that opening it for writing raises (\<open>None\<close> when it can be
  written), and the lines printed so far.
\<close>

record world =
  files :: "string \<rightharpoonup> content"
  write_error :: "string \<rightharpoonup> string"
  stdout :: "string list"

datatype ret = PyNone | Plt  \<comment> \<open>the chart functions return \<open>None\<close> or the module \<open>plt\<close>\<close>

definition print :: "string \<Rightarrow> world \<Rightarrow> world" where
  "print line w = w\<lparr>stdout := stdout w @ [line]\<rparr>"

text \<open>Opening \<open>path\<close> for writing and storing \<open>content\<close> (\<open>open(path, 'w')\<close>, \<open>plt.savefig\<close>).\<close>

definition write_file :: "string \<Rightarrow> content \<Rightarrow> world \<Rightarrow> (error + unit) \<times> world" where
  "write_file path content w =
     (case write_error w path of
        Some msg \<Rightarrow> (Inl (OSError msg), w)
      | None \<Rightarrow> (Inr (), w\<lparr>files := (files w)(path \<mapsto> content)\<rparr>))"

text \<open>
  \<^verbatim>\<open>
  def load_buildings_data(filepath):
      with open(filepath, 'r') as f:
          return json.load(f)
  \<close>
\<close>

definition load_buildings_data :: "string \<Rightarrow> world \<Rightarrow> error + building list" where
  "load_buildings_data filepath w =
     (case files w filepath of
        None \<Rightarrow> Inl (FileNotFoundError filepath)
      | Some (JsonFile data) \<Rightarrow> Inr data
      | Some _ \<Rightarrow> Inl ValueError)"

subsection \<open>Python list operations that may raise\<close>

text \<open>A list comprehension whose element expression may raise: the first raise ends it.\<close>

fun list_comp :: "('a \<Rightarrow> error + 'b) \<Rightarrow> 'a list \<Rightarrow> error + 'b list" where
  "list_comp f [] = Inr []"
| "list_comp f (x # xs) =
     (case f x of
        Inl e \<Rightarrow> Inl e
      | Inr y \<Rightarrow> (case list_comp f xs of Inl e \<Rightarrow> Inl e | Inr ys \<Rightarrow> Inr (y # ys)))"

text \<open>\<open>b[key]\<close> on a dict: \<open>KeyError\<close> when the key is absent.\<close>

definition getitem :: "string \<Rightarrow> (building \<Rightarrow> 'a option) \<Rightarrow> building \<Rightarrow> error + 'a" where
  "getitem key field b = (case field b of None \<Rightarrow> Inl (KeyError key) | Some v \<Rightarrow> Inr v)"

text \<open>\<open>xs[i]\<close> on a list, for an index that is not negative.\<close>

definition index :: "'a list \<Rightarrow> nat \<Rightarrow> error + 'a" where
  "index xs i = (if i < length xs then Inr (xs ! i) else Inl IndexError)"

subsection \<open>The overall chart\<close>

text \<open>
  \<open>np.argsort\<close> is numpy's. Its default kind is an unstable sort, so which of two equal
  scores comes first is not fixed by its contract; it is a parameter \<open>np_argsort\<close> of the
  model, and the contract is that the result lists the indices of the input, each once, in
  an order that makes the values ascend.
\<close>

definition argsort_contract :: "(score list \<Rightarrow> nat list) \<Rightarrow> bool" where
  "argsort_contract np_argsort \<longleftrightarrow>
     (\<forall>xs. mset (np_argsort xs) = mset [0..<length xs] \<and>
           sorted (map (\<lambda>i. xs ! i) (np_argsort xs)))"

text \<open>An argsort that keeps the contract: a stable insertion sort of the indices.\<close>

definition stable_argsort :: "score list \<Rightarrow> nat list" where
  "stable_argsort xs = map snd (sort_key fst (zip xs [0..<length xs]))"

text \<open>
  Lines 25 to 34 of \<open>create_risk_score_chart\<close>: the names, scores and colours of the bars.
  \<^verbatim>\<open>
  building_names = [b['building_name'] for b in buildings_data]
  risk_scores = [b['fire_risk_score'] for b in buildings_data]
  sorted_indices = np.argsort(risk_scores)[::-1]  # Sort in descending order
  building_names = [building_names[i] for i in sorted_indices]
  risk_scores = [risk_scores[i] for i in sorted_indices]
  bar_colors = [get_color_mapping(score) for score in risk_scores]
  \<close>
\<close>

definition risk_chart_entries ::
  "(score list \<Rightarrow> nat list) \<Rightarrow> building list \<Rightarrow> error + (string list \<times> score list \<times> string list)"
where
  "risk_chart_entries np_argsort buildings_data =
     (case list_comp (getitem ''building_name'' building_name) buildings_data of
        Inl e \<Rightarrow> Inl e
      | Inr building_names \<Rightarrow>
     (case list_comp (getitem ''fire_risk_score'' fire_risk_score) buildings_data of
        Inl e \<Rightarrow> Inl e
      | Inr risk_scores \<Rightarrow>
     (let sorted_indices = rev (np_argsort risk_scores) in
      case list_comp (index building_names) sorted_indices of
        Inl e \<Rightarrow> Inl e
      | Inr building_names' \<Rightarrow>
     (case list_comp (index risk_scores) sorted_indices of
        Inl e \<Rightarrow> Inl e
      | Inr risk_scores' \<Rightarrow>
          Inr (building_names', risk_scores', map get_color_mapping risk_scores')))))"

text \<open>
  Lines 36 to 66: the figure.
  \<^verbatim>\<open>
  plt.figure(figsize=(max(12, len(building_names) * 0.5), 8))
  bars = plt.bar(range(len(building_names)), risk_scores, color=bar_colors)
  plt.xticks(range(len(building_names)), building_names, rotation=45, ha='right')
  plt.title('UC Davis Buildings Fire Risk Assessment', ...)
  for i, (name, score) in enumerate(zip(building_names[:3], risk_scores[:3])):
      plt.annotate(f"{score}", xy=(i, score), ...)
  \<close>
\<close>

definition risk_score_figure :: "string list \<Rightarrow> score list \<Rightarrow> string list \<Rightarrow> figure" where
  "risk_score_figure building_names risk_scores bar_colors =
     \<lparr>figsize = (max 12 (real (length building_names) * 0.5), 8),
      bars = map (\<lambda>(i, score, c). \<lparr>bar_x = real i, bar_height = Some score, bar_color = Hex c\<rparr>)
               (zip [0..<length building_names] (zip risk_scores bar_colors)),
      xticks = map (\<lambda>(i, name). (real i, Some name))
                 (zip [0..<length building_names] building_names),
      title = ''UC Davis Buildings Fire Risk Assessment'',
      annotations = map (\<lambda>(i, name, score). (real i, score))
                      (zip [0..<3] (zip (take 3 building_names) (take 3 risk_scores)))\<rparr>"

text \<open>
  \<^verbatim>\<open>
  def create_risk_score_chart(buildings_data, output_file='risk_scores_chart.png'):
      ...
      plt.savefig(output_file, dpi=300, bbox_inches='tight')
      print(f"Chart saved as {output_file}")
      return plt
  \<close>
\<close>

definition create_risk_score_chart ::
  "(score list \<Rightarrow> nat list) \<Rightarrow> building list \<Rightarrow> string \<Rightarrow> world \<Rightarrow> (error + ret) \<times> world"
where
  "create_risk_score_chart np_argsort buildings_data output_file w =
     (case risk_chart_entries np_argsort buildings_data of
        Inl e \<Rightarrow> (Inl e, w)
      | Inr (building_names, risk_scores, bar_colors) \<Rightarrow>
     (case write_file output_file
             (PngFile (risk_score_figure building_names risk_scores bar_colors)) w of
        (Inl e, w') \<Rightarrow> (Inl e, w')
      | (Inr _, w') \<Rightarrow> (Inr Plt, print (''Chart saved as '' @ output_file) w')))"

subsection \<open>The chart grouped by building type\<close>

text \<open>
  \<open>df['building_type'].unique()\<close>: the values of the column in the order of their first
  appearance. \<open>pd.DataFrame\<close> puts NaN where a record has no such key; NaN (\<open>None\<close> here) is
  then one more value of the column.
\<close>

definition unique :: "'a list \<Rightarrow> 'a list" where
  "unique xs = rev (remdups (rev xs))"

text \<open>
  \<open>df[df['building_type'] == building_type]\<close>: the rows of that type, in the order of the
  input. NaN equals no value, itself included, so the rows selected for NaN are none.
\<close>

definition rows_of_type :: "string option \<Rightarrow> building list \<Rightarrow> building list" where
  "rows_of_type building_type' buildings_data =
     (case building_type' of
        None \<Rightarrow> []
      | Some t \<Rightarrow> filter (\<lambda>b. building_type b = Some t) buildings_data)"

text \<open>
  \<open>type_data[key]\<close>: a column of the frame exists when at least one record of the input has
  the key, and \<open>KeyError\<close> is raised otherwise.
\<close>

definition column ::
  "string \<Rightarrow> (building \<Rightarrow> 'a option) \<Rightarrow> building list \<Rightarrow> building list \<Rightarrow> error + 'a option list"
where
  "column key field buildings_data type_data =
     (if list_all (\<lambda>b. field b = None) buildings_data then Inl (KeyError key)
      else Inr (map field type_data))"

text \<open>
  One round of the loop of lines 97 to 105, for the type at position \<open>i\<close> of the \<open>k\<close> types:
  the bars it adds and the ticks it sets.
  \<^verbatim>\<open>
  type_data = df[df['building_type'] == building_type]
  indices = np.arange(len(type_data))
  plt.bar(indices + i * bar_width, type_data['fire_risk_score'],
          width=bar_width, label=building_type, color=color)
  plt.xticks(indices + bar_width * (len(building_types) - 1) / 2,
            type_data['building_name'], rotation=45, ha='right')
  \<close>
  For the NaN type the selection is empty and the round draws no bar; what \<open>plt.bar\<close> makes
  of a NaN label is matplotlib's, and the call is taken to return.
\<close>

definition type_bars ::
  "building list \<Rightarrow> nat \<Rightarrow> nat \<Rightarrow> string option \<Rightarrow>
   error + (bar list \<times> (real \<times> string option) list)"
where
  "type_bars buildings_data k i building_type' =
     (let bar_width = 0.8 / real k;
          type_data = rows_of_type building_type' buildings_data;
          indices = [0..<length type_data]
      in case column ''fire_risk_score'' fire_risk_score buildings_data type_data of
           Inl e \<Rightarrow> Inl e
         | Inr heights \<Rightarrow>
        (case column ''building_name'' building_name buildings_data type_data of
           Inl e \<Rightarrow> Inl e
         | Inr names \<Rightarrow>
             Inr (map (\<lambda>(j, h). \<lparr>bar_x = real j + real i * bar_width, bar_height = h,
                                 bar_color = Husl i k\<rparr>) (zip indices heights),
                  map (\<lambda>(j, n). (real j + bar_width * (real k - 1) / 2, n))
                    (zip indices names))))"

text \<open>
  Lines 81 to 119: the figure. Every round adds its bars; \<open>plt.xticks\<close> replaces the ticks,
  so those of the last round stay.
  \<^verbatim>\<open>
  df = pd.DataFrame(buildings_data)
  building_types = df['building_type'].unique()
  plt.figure(figsize=(max(14, len(building_types) * 4), 10))
  bar_width = 0.8 / len(building_types)
  colors = sns.color_palette("husl", len(building_types))
  for i, (building_type, color) in enumerate(zip(building_types, colors)):
      ...
  plt.title('UC Davis Buildings Fire Risk Assessment by Building Type', ...)
  \<close>
  The column \<open>building_type\<close> exists only when the list has a record with that key, so there
  is at least one type when the division is reached.
\<close>

definition building_type_figure :: "building list \<Rightarrow> error + figure" where
  "building_type_figure buildings_data =
     (case column ''building_type'' building_type buildings_data buildings_data of
        Inl e \<Rightarrow> Inl e
      | Inr type_column \<Rightarrow>
     (let building_types = unique type_column;
          k = length building_types
      in case list_comp (\<lambda>(i, t). type_bars buildings_data k i t)
                (zip [0..<k] building_types) of
           Inl e \<Rightarrow> Inl e
         | Inr rounds \<Rightarrow>
             Inr \<lparr>figsize = (max 14 (real k * 4), 10),
                  bars = concat (map fst rounds),
                  xticks = (if rounds = [] then [] else snd (last rounds)),
                  title = ''UC Davis Buildings Fire Risk Assessment by Building Type'',
                  annotations = []\<rparr>))"

text \<open>
  \<^verbatim>\<open>
  def create_building_type_chart(buildings_data, output_file='risk_scores_by_type_chart.png'):
      if 'building_type' not in buildings_data[0]:
          print("Building type information not available. Skipping grouped chart.")
          return None
      ...
      plt.savefig(output_file, dpi=300, bbox_inches='tight')
      print(f"Grouped chart saved as {output_file}")
      return plt
  \<close>
\<close>

definition create_building_type_chart ::
  "building list \<Rightarrow> string \<Rightarrow> world \<Rightarrow> (error + ret) \<times> world"
where
  "create_building_type_chart buildings_data output_file w =
     (case index buildings_data 0 of
        Inl e \<Rightarrow> (Inl e, w)
      | Inr first \<Rightarrow>
          if building_type first = None then
            (Inr PyNone,
             print ''Building type information not available. Skipping grouped chart.'' w)
          else
            (case building_type_figure buildings_data of
               Inl e \<Rightarrow> (Inl e, w)
             | Inr fig \<Rightarrow>
            (case write_file output_file (PngFile fig) w of
               (Inl e, w') \<Rightarrow> (Inl e, w')
             | (Inr _, w') \<Rightarrow>
                 (Inr Plt, print (''Grouped chart saved as '' @ output_file) w'))))"

subsection \<open>The script\<close>

definition sample_data :: "building list" where
  "sample_data =
     [\<lparr>building_name = Some ''Tercero Residence Halls'', fire_risk_score = Some 72,
       building_type = Some ''Residential''\<rparr>,
      \<lparr>building_name = Some ''Segundo Residence Halls'', fire_risk_score = Some 65,
       building_type = Some ''Residential''\<rparr>,
      \<lparr>building_name = Some ''Sciences Laboratory Building'', fire_risk_score = Some 45,
       building_type = Some ''Academic''\<rparr>,
      \<lparr>building_name = Some ''Memorial Union'', fire_risk_score = Some 31,
       building_type = Some ''Administrative''\<rparr>,
      \<lparr>building_name = Some ''Shields Library'', fire_risk_score = Some 28,
       building_type = Some ''Academic''\<rparr>,
      \<lparr>building_name = Some ''Meyer Hall'', fire_risk_score = Some 52,
       building_type = Some ''Research''\<rparr>]"

definition buildings_file :: string where
  "buildings_file = ''buildings.json''"

text \<open>
  Lines 132 to 276 of \<open>main\<close>.
  \<^verbatim>\<open>
  if not Path(buildings_file).exists():
      print(f"Sample data file not found. Creating {buildings_file}")
      sample_data = [...]
      with open(buildings_file, 'w') as f:
          json.dump(sample_data, f, indent=2)
  \<close>
\<close>

definition create_sample_if_missing :: "world \<Rightarrow> (error + unit) \<times> world" where
  "create_sample_if_missing w =
     (if files w buildings_file = None then
        write_file buildings_file (JsonFile sample_data)
          (print (''Sample data file not found. Creating '' @ buildings_file) w)
      else (Inr (), w))"

text \<open>
  Lines 278 to 293 of \<open>main\<close>. An \<open>Inl\<close> result is an exception that leaves \<open>main\<close> and ends
  the script.
  \<^verbatim>\<open>
  buildings_data = load_buildings_data(buildings_file)
  create_risk_score_chart(buildings_data)
  try:
      create_building_type_chart(buildings_data)
  except Exception as e:
      print(f"Couldn't create grouped chart: {e}")
  print("Visualization complete!")
  print("The following files were generated:")
  print("- risk_scores_chart.png")
  print("- risk_scores_by_type_chart.png")
  \<close>
\<close>

definition closing_lines :: "world \<Rightarrow> world" where
  "closing_lines w =
     print ''- risk_scores_by_type_chart.png''
       (print ''- risk_scores_chart.png''
         (print ''The following files were generated:''
           (print ''Visualization complete!'' w)))"

definition main :: "(score list \<Rightarrow> nat list) \<Rightarrow> world \<Rightarrow> (error + unit) \<times> world" where
  "main np_argsort w =
     (case create_sample_if_missing w of
        (Inl e, w1) \<Rightarrow> (Inl e, w1)
      | (Inr _, w1) \<Rightarrow>
     (case load_buildings_data buildings_file w1 of
        Inl e \<Rightarrow> (Inl e, w1)
      | Inr buildings_data \<Rightarrow>
     (case create_risk_score_chart np_argsort buildings_data ''risk_scores_chart.png'' w1 of
        (Inl e, w2) \<Rightarrow> (Inl e, w2)
      | (Inr _, w2) \<Rightarrow>
     (case create_building_type_chart buildings_data ''risk_scores_by_type_chart.png'' w2 of
        (Inl e, w3) \<Rightarrow>
          (Inr (), closing_lines (print (''Couldn't create grouped chart: '' @ str_error e) w3))
      | (Inr _, w3) \<Rightarrow> (Inr (), closing_lines w3)))))"

subsection \<open>Example inputs\<close>

text \<open>A working directory without files, where every path can be written.\<close>

definition no_files :: world where
  "no_files = \<lparr>files = Map.empty, write_error = Map.empty, stdout = []\<rparr>"

text \<open>A working directory that holds only \<open>buildings.json\<close>, with the given records.\<close>

definition directory_with :: "building list \<Rightarrow> world" where
  "directory_with buildings_data =
     \<lparr>files = [buildings_file \<mapsto> JsonFile buildings_data], write_error = Map.empty,
      stdout = []\<rparr>"

definition two_offices :: "building list" where
  "two_offices =
     [\<lparr>building_name = Some ''Annex'', fire_risk_score = Some 10,
       building_type = Some ''Office''\<rparr>,
      \<lparr>building_name = Some ''Depot'', fire_risk_score = Some 20,
       building_type = Some ''Office''\<rparr>]"

definition untyped_barn :: "building list" where
  "untyped_barn =
     [\<lparr>building_name = Some ''Barn'', fire_risk_score = Some 40, building_type = None\<rparr>]"

section \<open>Lemmas about the model\<close>

subsection \<open>List comprehensions and the argsort contract\<close>

lemma list_comp_getitem_eq:
  "list_comp (getitem key field) bs =
     (if list_all (\<lambda>b. field b \<noteq> None) bs then Inr (map (\<lambda>b. the (field b)) bs)
      else Inl (KeyError key))"
  by (induction bs) (auto simp: getitem_def split: option.splits)

lemma list_comp_getitem:
  assumes "list_comp (getitem key field) bs = Inr vs"
  shows "map field bs = map Some vs"
proof -
  from assms have all: "list_all (\<lambda>b. field b \<noteq> None) bs"
    and vs: "vs = map (\<lambda>b. the (field b)) bs"
    by (auto simp: list_comp_getitem_eq split: if_splits)
  from all have "\<forall>b \<in> set bs. field b = Some (the (field b))"
    by (auto simp: list_all_iff)
  then show ?thesis unfolding vs by (simp add: comp_def)
qed

lemma list_comp_index:
  "\<forall>i \<in> set idx. i < length xs \<Longrightarrow> list_comp (index xs) idx = Inr (map (\<lambda>i. xs ! i) idx)"
  by (induction idx) (auto simp: index_def)

lemma argsort_contract_set:
  assumes "argsort_contract np_argsort"
  shows "set (np_argsort xs) = {0..<length xs}"
proof -
  from assms have "mset (np_argsort xs) = mset [0..<length xs]"
    by (simp add: argsort_contract_def)
  then have "set (np_argsort xs) = set [0..<length xs]" by (rule mset_eq_setD)
  then show ?thesis by simp
qed

lemma argsort_contract_length:
  assumes "argsort_contract np_argsort"
  shows "length (np_argsort xs) = length xs"
proof -
  from assms have "mset (np_argsort xs) = mset [0..<length xs]"
    by (simp add: argsort_contract_def)
  then have "length (np_argsort xs) = length [0..<length xs]" by (rule mset_eq_length)
  then show ?thesis by simp
qed

lemma stable_argsort_contract: "argsort_contract stable_argsort"
  unfolding argsort_contract_def
proof (intro allI conjI)
  fix xs :: "score list"
  let ?zs = "zip xs [0..<length xs]"
  have m: "map snd ?zs = [0..<length xs]" by (simp add: map_snd_zip)
  have "mset (stable_argsort xs) = mset (map snd (sort_key fst ?zs))"
    by (simp only: stable_argsort_def)
  also have "\<dots> = mset (map snd ?zs)" by (simp only: mset_map mset_sort)
  also have "\<dots> = mset [0..<length xs]" by (simp only: m)
  finally show "mset (stable_argsort xs) = mset [0..<length xs]" .
  have pairs: "\<forall>p \<in> set (sort_key fst ?zs). xs ! snd p = fst p"
    by (auto simp: set_zip)
  have "map (\<lambda>i. xs ! i) (stable_argsort xs) = map (\<lambda>p. xs ! snd p) (sort_key fst ?zs)"
    by (simp add: stable_argsort_def comp_def)
  also have "\<dots> = map fst (sort_key fst ?zs)"
    using pairs by (intro map_cong) auto
  finally show "sorted (map (\<lambda>i. xs ! i) (stable_argsort xs))"
    by simp
qed

text \<open>What lines 25 to 34 compute when the argsort keeps its contract.\<close>

lemma risk_chart_entries_Inr:
  assumes c: "argsort_contract np_argsort"
    and r: "risk_chart_entries np_argsort buildings_data = Inr (names, scores, colors)"
  shows "\<exists>names0 scores0.
           map building_name buildings_data = map Some names0 \<and>
           map fire_risk_score buildings_data = map Some scores0 \<and>
           names = map (\<lambda>i. names0 ! i) (rev (np_argsort scores0)) \<and>
           scores = map (\<lambda>i. scores0 ! i) (rev (np_argsort scores0)) \<and>
           colors = map get_color_mapping scores"
proof -
  from r obtain names0 where n0: "list_comp (getitem ''building_name'' building_name) buildings_data = Inr names0"
    by (auto simp: risk_chart_entries_def split: sum.splits)
  from r n0 obtain scores0 where s0: "list_comp (getitem ''fire_risk_score'' fire_risk_score) buildings_data = Inr scores0"
    by (auto simp: risk_chart_entries_def split: sum.splits)
  from n0 have mn: "map building_name buildings_data = map Some names0" by (simp add: list_comp_getitem)
  from s0 have ms: "map fire_risk_score buildings_data = map Some scores0" by (simp add: list_comp_getitem)
  from mn have ln: "length names0 = length buildings_data" by (metis length_map)
  from ms have ls: "length scores0 = length buildings_data" by (metis length_map)
  let ?idx = "rev (np_argsort scores0)"
  have inr: "\<forall>i \<in> set ?idx. i < length scores0" using argsort_contract_set [OF c, of scores0] by simp
  then have inn: "\<forall>i \<in> set ?idx. i < length names0" using ln ls by simp
  have a: "list_comp (index names0) ?idx = Inr (map (\<lambda>i. names0 ! i) ?idx)" using inn by (rule list_comp_index)
  have b: "list_comp (index scores0) ?idx = Inr (map (\<lambda>i. scores0 ! i) ?idx)" using inr by (rule list_comp_index)
  from r n0 s0 a b have "names = map (\<lambda>i. names0 ! i) ?idx \<and> scores = map (\<lambda>i. scores0 ! i) ?idx \<and> colors = map get_color_mapping scores"
    by (auto simp: risk_chart_entries_def Let_def)
  with mn ms show ?thesis by blast
qed

subsection \<open>The bars of the overall chart\<close>

lemma map_fst_zip_fun:
  "length xs = length ys \<Longrightarrow> map (\<lambda>p. f (fst p)) (zip xs ys) = map f xs"
  by (induction xs ys rule: list_induct2) auto

lemma map_snd_zip_fun:
  "length xs = length ys \<Longrightarrow> map (\<lambda>p. f (snd p)) (zip xs ys) = map f ys"
  by (induction xs ys rule: list_induct2) auto

lemma risk_chart_entries_sorted:
  assumes c: "argsort_contract np_argsort"
    and r: "risk_chart_entries np_argsort buildings_data = Inr (names, scores, colors)"
  shows "sorted_wrt (\<lambda>x y. x \<ge> y) scores"
proof -
  from risk_chart_entries_Inr [OF c r] obtain scores0 where
    s: "scores = map (\<lambda>i. scores0 ! i) (rev (np_argsort scores0))" by blast
  from c have "sorted (map (\<lambda>i. scores0 ! i) (np_argsort scores0))"
    by (simp add: argsort_contract_def)
  then have "sorted_wrt (\<lambda>x y. x \<ge> y) (rev (map (\<lambda>i. scores0 ! i) (np_argsort scores0)))"
    by (simp only: sorted_wrt_rev)
  then show ?thesis unfolding s by (simp only: rev_map)
qed

lemma risk_score_figure_heights:
  assumes "length names = length scores" and "length colors = length scores"
  shows "map bar_height (bars (risk_score_figure names scores colors)) = map Some scores"
    and "map bar_x (bars (risk_score_figure names scores colors)) = map real [0..<length scores]"
    and "map snd (xticks (risk_score_figure names scores colors)) = map Some names"
proof -
  let ?n = "length scores"
  have l: "length [0..<?n] = length (zip scores colors)" using assms by simp
  have "map bar_height (bars (risk_score_figure names scores colors))
      = map (\<lambda>p. Some (fst (snd p))) (zip [0..<?n] (zip scores colors))"
    using assms by (simp add: risk_score_figure_def comp_def case_prod_beta)
  also have "\<dots> = map (\<lambda>q. Some (fst q)) (zip scores colors)"
    using l by (rule map_snd_zip_fun)
  also have "\<dots> = map Some scores"
    using assms by (intro map_fst_zip_fun) simp
  finally show "map bar_height (bars (risk_score_figure names scores colors)) = map Some scores" .
  have "map bar_x (bars (risk_score_figure names scores colors))
      = map (\<lambda>p. real (fst p)) (zip [0..<?n] (zip scores colors))"
    using assms by (simp add: risk_score_figure_def comp_def case_prod_beta)
  also have "\<dots> = map real [0..<?n]"
    using l by (rule map_fst_zip_fun)
  finally show "map bar_x (bars (risk_score_figure names scores colors)) = map real [0..<?n]" .
  have "map snd (xticks (risk_score_figure names scores colors))
      = map (\<lambda>p. Some (snd p)) (zip [0..<length names] names)"
    by (simp add: risk_score_figure_def comp_def case_prod_beta)
  also have "\<dots> = map Some names"
    by (intro map_snd_zip_fun) simp
  finally show "map snd (xticks (risk_score_figure names scores colors)) = map Some names" .
qed

lemma risk_chart_entries_lengths:
  assumes c: "argsort_contract np_argsort"
    and r: "risk_chart_entries np_argsort buildings_data = Inr (names, scores, colors)"
  shows "length names = length buildings_data \<and> length scores = length buildings_data \<and>
         length colors = length buildings_data"
proof -
  from risk_chart_entries_Inr [OF c r] obtain names0 scores0 where
    ms: "map fire_risk_score buildings_data = map Some scores0"
    and n: "names = map (\<lambda>i. names0 ! i) (rev (np_argsort scores0))"
    and s: "scores = map (\<lambda>i. scores0 ! i) (rev (np_argsort scores0))"
    and k: "colors = map get_color_mapping scores" by blast
  from ms have "length scores0 = length buildings_data" by (metis length_map)
  with n s k argsort_contract_length [OF c, of scores0] show ?thesis by simp
qed

lemma list_comp_Inr:
  "list_comp f xs = Inr ys \<Longrightarrow> list_all2 (\<lambda>x y. f x = Inr y) xs ys"
  by (induction xs arbitrary: ys) (auto split: sum.splits)

lemma list_all2_map_eq:
  "list_all2 (\<lambda>x y. f x = g y) xs ys \<Longrightarrow> map f xs = map g ys"
  by (induction xs ys rule: list_all2_induct) auto

subsection \<open>The bars of the grouped chart\<close>

lemma type_bars_heights:
  assumes "type_bars buildings_data k i t = Inr rd"
  shows "map bar_height (fst rd) = map fire_risk_score (rows_of_type t buildings_data)"
proof -
  let ?rows = "rows_of_type t buildings_data"
  from assms have "fst rd =
      map (\<lambda>(j, h). \<lparr>bar_x = real j + real i * (0.8 / real k), bar_height = h, bar_color = Husl i k\<rparr>)
        (zip [0..<length ?rows] (map fire_risk_score ?rows))"
    by (auto simp: type_bars_def column_def Let_def split: if_splits sum.splits)
  then have "map bar_height (fst rd) =
      map (\<lambda>p. snd p) (zip [0..<length ?rows] (map fire_risk_score ?rows))"
    by (simp add: comp_def case_prod_beta)
  also have "\<dots> = map (\<lambda>h. h) (map fire_risk_score ?rows)"
    by (intro map_snd_zip_fun) simp
  finally show ?thesis by simp
qed

lemma building_type_figure_heights:
  assumes "building_type_figure buildings_data = Inr fig"
  shows "map bar_height (bars fig) =
         concat (map (\<lambda>t. map fire_risk_score (rows_of_type t buildings_data))
                   (unique (map building_type buildings_data)))"
proof -
  let ?types = "unique (map building_type buildings_data)"
  let ?k = "length ?types"
  from assms obtain rds where
    lc: "list_comp (\<lambda>(i, t). type_bars buildings_data ?k i t) (zip [0..<?k] ?types) = Inr rds"
    and fig: "bars fig = concat (map fst rds)"
    by (auto simp: building_type_figure_def column_def Let_def split: sum.splits if_splits)
  from list_comp_Inr [OF lc]
  have "list_all2 (\<lambda>p rd. (case p of (i, t) \<Rightarrow> type_bars buildings_data ?k i t) = Inr rd)
          (zip [0..<?k] ?types) rds" .
  then have "list_all2 (\<lambda>p rd. map fire_risk_score (rows_of_type (snd p) buildings_data)
                          = map bar_height (fst rd)) (zip [0..<?k] ?types) rds"
    by (rule list_all2_mono) (auto dest: type_bars_heights)
  then have "map (\<lambda>p. map fire_risk_score (rows_of_type (snd p) buildings_data)) (zip [0..<?k] ?types)
           = map (\<lambda>rd. map bar_height (fst rd)) rds"
    by (rule list_all2_map_eq)
  moreover have "map (\<lambda>p. map fire_risk_score (rows_of_type (snd p) buildings_data)) (zip [0..<?k] ?types)
     = map (\<lambda>t. map fire_risk_score (rows_of_type t buildings_data)) ?types"
    by (intro map_snd_zip_fun) simp
  ultimately have "map (\<lambda>rd. map bar_height (fst rd)) rds
     = map (\<lambda>t. map fire_risk_score (rows_of_type t buildings_data)) ?types" by simp
  then show ?thesis unfolding fig by (simp add: map_concat comp_def)
qed

subsection \<open>What each step leaves unchanged\<close>

lemma print_fields [simp]:
  "files (print line w) = files w"
  "write_error (print line w) = write_error w"
  "stdout (print line w) = stdout w @ [line]"
  by (simp_all add: print_def)

lemma closing_lines_fields [simp]:
  "files (closing_lines w) = files w"
  "write_error (closing_lines w) = write_error w"
  by (simp_all add: closing_lines_def)

lemma write_file_cases:
  "write_file path c w =
     (if write_error w path = None then (Inr (), w\<lparr>files := (files w)(path \<mapsto> c)\<rparr>)
      else (Inl (OSError (the (write_error w path))), w))"
  by (auto simp: write_file_def split: option.splits)

lemma write_file_frame:
  "write_error (snd (write_file path c w)) = write_error w"
  "q \<noteq> path \<Longrightarrow> files (snd (write_file path c w)) q = files w q"
  by (simp_all add: write_file_cases)

lemma create_risk_score_chart_frame:
  "write_error (snd (create_risk_score_chart np_argsort buildings_data out w)) = write_error w"
  "q \<noteq> out \<Longrightarrow> files (snd (create_risk_score_chart np_argsort buildings_data out w)) q = files w q"
  by (auto simp: create_risk_score_chart_def write_file_cases split: sum.splits prod.splits)

lemma create_building_type_chart_frame:
  "write_error (snd (create_building_type_chart buildings_data out w)) = write_error w"
  "q \<noteq> out \<Longrightarrow> files (snd (create_building_type_chart buildings_data out w)) q = files w q"
  by (auto simp: create_building_type_chart_def write_file_cases split: sum.splits prod.splits)

lemma create_sample_if_missing_frame:
  "write_error (snd (create_sample_if_missing w)) = write_error w"
  "q \<noteq> buildings_file \<Longrightarrow> files (snd (create_sample_if_missing w)) q = files w q"
  "files w buildings_file \<noteq> None \<Longrightarrow> create_sample_if_missing w = (Inr (), w)"
  by (auto simp: create_sample_if_missing_def write_file_cases)

text \<open>The steps of \<open>main\<close>, named.\<close>

lemma main_steps:
  "main np_argsort w =
     (let s1 = create_sample_if_missing w; w1 = snd s1 in
      case fst s1 of Inl e \<Rightarrow> (Inl e, w1)
      | Inr _ \<Rightarrow>
     (case load_buildings_data buildings_file w1 of Inl e \<Rightarrow> (Inl e, w1)
      | Inr buildings_data \<Rightarrow>
     (let s2 = create_risk_score_chart np_argsort buildings_data ''risk_scores_chart.png'' w1;
          w2 = snd s2 in
      case fst s2 of Inl e \<Rightarrow> (Inl e, w2)
      | Inr _ \<Rightarrow>
     (let s3 = create_building_type_chart buildings_data ''risk_scores_by_type_chart.png'' w2;
          w3 = snd s3 in
      case fst s3 of
        Inl e \<Rightarrow> (Inr (), closing_lines (print (''Couldn't create grouped chart: '' @ str_error e) w3))
      | Inr _ \<Rightarrow> (Inr (), closing_lines w3)))))"
  by (auto simp: main_def Let_def split: prod.splits sum.splits)

lemma main_frame:
  assumes "q \<noteq> buildings_file" "q \<noteq> ''risk_scores_chart.png''"
    "q \<noteq> ''risk_scores_by_type_chart.png''"
  shows "files (snd (main np_argsort w)) q = files w q"
  using assms
  by (simp add: main_steps Let_def create_sample_if_missing_frame
        create_risk_score_chart_frame create_building_type_chart_frame split: sum.splits)

lemma main_keeps_buildings_file:
  assumes "files w buildings_file \<noteq> None"
  shows "files (snd (main np_argsort w)) buildings_file = files w buildings_file"
  using assms
  by (simp add: main_steps Let_def create_sample_if_missing_frame buildings_file_def
        create_risk_score_chart_frame create_building_type_chart_frame split: sum.splits)

subsection \<open>When the steps succeed\<close>








subsection \<open>Evaluation on concrete inputs\<close>

text \<open>The definitions a run on a concrete input unfolds.\<close>

lemmas eval_defs =
  main_def create_sample_if_missing_def write_file_def print_def buildings_file_def
  load_buildings_data_def sample_data_def create_risk_score_chart_def risk_chart_entries_def
  getitem_def stable_argsort_def index_def risk_score_figure_def create_building_type_chart_def
  building_type_figure_def unique_def type_bars_def rows_of_type_def column_def closing_lines_def
  get_color_mapping_def no_files_def directory_with_def two_offices_def untyped_barn_def

section \<open>Properties\<close>

subsection \<open>The colour classifier\<close>

text \<open>
  C1. For every numeric score, \<open>get_color_mapping\<close> returns green (\<open>#10B981\<close>) if
  \<open>score < 33\<close>, amber (\<open>#F59E0B\<close>) if \<open>33 \<le> score < 66\<close>, and red (\<open>#EF4444\<close>) if
  \<open>score \<ge> 66\<close>; a score of exactly 33 is amber and a score of exactly 66 is red.
\<close>

theorem get_color_mapping_thresholds:
  "(score < 33 \<longrightarrow> get_color_mapping score = ''#10B981'') \<and>
   (33 \<le> score \<and> score < 66 \<longrightarrow> get_color_mapping score = ''#F59E0B'') \<and>
   (66 \<le> score \<longrightarrow> get_color_mapping score = ''#EF4444'') \<and>
   get_color_mapping 33 = ''#F59E0B'' \<and>
   get_color_mapping 66 = ''#EF4444''"
  by (simp add: get_color_mapping_def)

theorem get_color_mapping_thresholds_witness:
  "get_color_mapping 10 = ''#10B981'' \<and>
   get_color_mapping 40 = ''#F59E0B'' \<and>
   get_color_mapping 70 = ''#EF4444''"
proof -
  have low: "(10::real) < 33" by simp
  have mid: "(33::real) \<le> 40 \<and> (40::real) < 66" by simp
  have high: "(66::real) \<le> 70" by simp
  from get_color_mapping_thresholds [of 10] low
  have g: "get_color_mapping 10 = ''#10B981''" by blast
  from get_color_mapping_thresholds [of 40] mid
  have a: "get_color_mapping 40 = ''#F59E0B''" by blast
  from get_color_mapping_thresholds [of 70] high
  have r: "get_color_mapping 70 = ''#EF4444''" by blast
  from g a r show ?thesis by blast
qed

text \<open>
  C8. \<open>get_color_mapping\<close> is total over all numeric scores, also below 0 and above 100:
  every score takes exactly one of the three branches, and the result is always one of the
  three hex strings; there is no error and no missing case.
\<close>

theorem get_color_mapping_total:
  "get_color_mapping score \<in> {''#10B981'', ''#F59E0B'', ''#EF4444''} \<and>
   (get_color_mapping score = ''#10B981'') = (score < 33) \<and>
   (get_color_mapping score = ''#F59E0B'') = (33 \<le> score \<and> score < 66) \<and>
   (get_color_mapping score = ''#EF4444'') = (66 \<le> score) \<and>
   get_color_mapping (- 5) = ''#10B981'' \<and>
   get_color_mapping 250 = ''#EF4444''"
  by (simp add: get_color_mapping_def)

subsection \<open>The order of the bars\<close>

text \<open>
  C2, as amended. The claim says both charts are sorted by descending score. The overall
  chart is: whenever \<open>create_risk_score_chart\<close> returns, the saved figure has one bar per
  record at the positions 0, 1, ... and the heights, read from left to right, never
  increase. The grouped chart has no sorting step: whenever \<open>create_building_type_chart\<close>
  saves a figure, its bars are, type after type in the order of first appearance, the scores
  of the records of that type in the order of the input.
\<close>

theorem chart_order:
  assumes c: "argsort_contract np_argsort"
  shows "(create_risk_score_chart np_argsort buildings_data out w = (Inr r, w') \<longrightarrow>
           (\<exists>fig scores. files w' out = Some (PngFile fig) \<and>
              map bar_x (bars fig) = map real [0..<length buildings_data] \<and>
              map bar_height (bars fig) = map Some scores \<and>
              sorted_wrt (\<lambda>x y. x \<ge> y) scores)) \<and>
         (create_building_type_chart buildings_data out w = (Inr Plt, w') \<longrightarrow>
           (\<exists>fig. files w' out = Some (PngFile fig) \<and>
              map bar_height (bars fig) =
                concat (map (\<lambda>t. map fire_risk_score (rows_of_type t buildings_data))
                          (unique (map building_type buildings_data)))))"
proof (intro conjI impI)
  assume run: "create_risk_score_chart np_argsort buildings_data out w = (Inr r, w')"
  then obtain names scores colors where
    e: "risk_chart_entries np_argsort buildings_data = Inr (names, scores, colors)"
    by (auto simp: create_risk_score_chart_def split: sum.splits)
  let ?fig = "risk_score_figure names scores colors"
  from run e have f: "files w' out = Some (PngFile ?fig)"
    by (auto simp: create_risk_score_chart_def write_file_cases split: if_splits)
  from risk_chart_entries_lengths [OF c e]
  have l: "length names = length scores" "length colors = length scores"
    "length scores = length buildings_data" by simp_all
  from risk_score_figure_heights [OF l(1) l(2)] l(3)
  have "map bar_x (bars ?fig) = map real [0..<length buildings_data]"
    and "map bar_height (bars ?fig) = map Some scores" by simp_all
  with f risk_chart_entries_sorted [OF c e]
  show "\<exists>fig scores. files w' out = Some (PngFile fig) \<and>
          map bar_x (bars fig) = map real [0..<length buildings_data] \<and>
          map bar_height (bars fig) = map Some scores \<and>
          sorted_wrt (\<lambda>x y. x \<ge> y) scores" by blast
next
  assume run: "create_building_type_chart buildings_data out w = (Inr Plt, w')"
  then obtain fig where b: "building_type_figure buildings_data = Inr fig"
    and f: "files w' out = Some (PngFile fig)"
    by (auto simp: create_building_type_chart_def write_file_cases index_def
          split: if_splits sum.splits)
  from f building_type_figure_heights [OF b]
  show "\<exists>fig. files w' out = Some (PngFile fig) \<and>
          map bar_height (bars fig) =
            concat (map (\<lambda>t. map fire_risk_score (rows_of_type t buildings_data))
                      (unique (map building_type buildings_data)))" by blast
qed

text \<open>The theorem at the two offices, with the stable argsort.\<close>

theorem chart_order_witness:
  "(\<exists>fig scores.
      files (snd (create_risk_score_chart stable_argsort two_offices ''overall.png'' no_files))
        ''overall.png'' = Some (PngFile fig) \<and>
      map bar_x (bars fig) = map real [0..<length two_offices] \<and>
      map bar_height (bars fig) = map Some scores \<and>
      sorted_wrt (\<lambda>x y. x \<ge> y) scores) \<and>
   (\<exists>fig.
      files (snd (create_building_type_chart two_offices ''by_type.png'' no_files))
        ''by_type.png'' = Some (PngFile fig) \<and>
      map bar_height (bars fig) =
        concat (map (\<lambda>t. map fire_risk_score (rows_of_type t two_offices))
                  (unique (map building_type two_offices))))"
proof -
  let ?s1 = "create_risk_score_chart stable_argsort two_offices ''overall.png'' no_files"
  let ?s2 = "create_building_type_chart two_offices ''by_type.png'' no_files"
  have "fst ?s1 = Inr Plt" by (simp add: eval_defs)
  then have r1: "?s1 = (Inr Plt, snd ?s1)" by (simp add: prod_eq_iff)
  have "fst ?s2 = Inr Plt" by (simp add: eval_defs)
  then have r2: "?s2 = (Inr Plt, snd ?s2)" by (simp add: prod_eq_iff)
  from chart_order [OF stable_argsort_contract, of two_offices "''overall.png''" no_files Plt "snd ?s1"] r1
  have a: "\<exists>fig scores.
      files (snd ?s1) ''overall.png'' = Some (PngFile fig) \<and>
      map bar_x (bars fig) = map real [0..<length two_offices] \<and>
      map bar_height (bars fig) = map Some scores \<and>
      sorted_wrt (\<lambda>x y. x \<ge> y) scores" by blast
  from chart_order [OF stable_argsort_contract, of two_offices "''by_type.png''" no_files Plt "snd ?s2"] r2
  have b: "\<exists>fig.
      files (snd ?s2) ''by_type.png'' = Some (PngFile fig) \<and>
      map bar_height (bars fig) =
        concat (map (\<lambda>t. map fire_risk_score (rows_of_type t two_offices))
                  (unique (map building_type two_offices)))" by blast
  from a b show ?thesis by blast
qed

text \<open>
  The claim as stated fails for the grouped chart: for two records of one type with the
  scores 10 and 20, in this order, the bar at position 0 has height 10 and the bar at
  position 1 has height 20.
\<close>

theorem grouped_chart_ascending_counterexample:
  "(case files (snd (create_building_type_chart two_offices ''by_type.png'' no_files))
          ''by_type.png'' of
      Some (PngFile fig) \<Rightarrow> map (\<lambda>b. (bar_x b, bar_height b)) (bars fig)
    | _ \<Rightarrow> []) = [(0, Some 10), (1, Some 20)]"
  by (simp add: eval_defs)

text \<open>
  C9. The sorting step of \<open>create_risk_score_chart\<close> is a permutation that keeps names and
  scores paired: one list of indices, holding every index of the input once, selects both
  the names and the scores, so the multiset of (name, score) pairs after sorting is that of
  the input records.
\<close>

theorem sort_keeps_pairs:
  assumes c: "argsort_contract np_argsort"
    and r: "risk_chart_entries np_argsort buildings_data = Inr (names, scores, colors)"
  shows "(\<exists>idx. mset idx = mset [0..<length buildings_data] \<and>
            names = map (\<lambda>i. the (building_name (buildings_data ! i))) idx \<and>
            scores = map (\<lambda>i. the (fire_risk_score (buildings_data ! i))) idx) \<and>
         mset (zip names scores) =
           mset (map (\<lambda>b. (the (building_name b), the (fire_risk_score b))) buildings_data)"
proof -
  from risk_chart_entries_Inr [OF c r] obtain names0 scores0 where
    mn: "map building_name buildings_data = map Some names0"
    and ms: "map fire_risk_score buildings_data = map Some scores0"
    and n: "names = map (\<lambda>i. names0 ! i) (rev (np_argsort scores0))"
    and s: "scores = map (\<lambda>i. scores0 ! i) (rev (np_argsort scores0))" by blast
  let ?n = "length buildings_data"
  let ?idx = "rev (np_argsort scores0)"
  let ?pair = "\<lambda>b. (the (building_name b), the (fire_risk_score b))"
  from mn have ln: "length names0 = ?n" by (metis length_map)
  from ms have ls: "length scores0 = ?n" by (metis length_map)
  from c ls have perm: "mset ?idx = mset [0..<?n]"
    by (simp add: argsort_contract_def)
  then have "set ?idx = set [0..<?n]" by (rule mset_eq_setD)
  then have bound: "\<forall>i \<in> set ?idx. i < ?n" by simp
  have nth_n: "names0 ! i = the (building_name (buildings_data ! i))" if "i < ?n" for i
  proof -
    from that have "map building_name buildings_data ! i = building_name (buildings_data ! i)"
      by simp
    moreover from that ln have "map Some names0 ! i = Some (names0 ! i)" by simp
    ultimately have "building_name (buildings_data ! i) = Some (names0 ! i)"
      using mn by simp
    then show ?thesis by simp
  qed
  have nth_s: "scores0 ! i = the (fire_risk_score (buildings_data ! i))" if "i < ?n" for i
  proof -
    from that have "map fire_risk_score buildings_data ! i = fire_risk_score (buildings_data ! i)"
      by simp
    moreover from that ls have "map Some scores0 ! i = Some (scores0 ! i)" by simp
    ultimately have "fire_risk_score (buildings_data ! i) = Some (scores0 ! i)"
      using ms by simp
    then show ?thesis by simp
  qed
  have n': "names = map (\<lambda>i. the (building_name (buildings_data ! i))) ?idx"
    unfolding n using bound nth_n by (intro map_cong) auto
  have s': "scores = map (\<lambda>i. the (fire_risk_score (buildings_data ! i))) ?idx"
    unfolding s using bound nth_s by (intro map_cong) auto
  have "zip names scores = map (\<lambda>i. ?pair (buildings_data ! i)) ?idx"
    unfolding n' s' by (simp add: zip_map_map zip_same_conv_map)
  then have "mset (zip names scores) = image_mset (\<lambda>i. ?pair (buildings_data ! i)) (mset ?idx)"
    by simp
  also have "\<dots> = mset (map (\<lambda>i. ?pair (buildings_data ! i)) [0..<?n])"
    by (simp only: perm mset_map)
  also have "map (\<lambda>i. ?pair (buildings_data ! i)) [0..<?n] = map ?pair buildings_data"
    by (rule nth_equalityI) simp_all
  finally have "mset (zip names scores) = mset (map ?pair buildings_data)" .
  with perm n' s' show ?thesis by blast
qed

text \<open>The theorem at the six sample records, with the stable argsort.\<close>

theorem sort_keeps_pairs_witness:
  "mset (zip (fst (projr (risk_chart_entries stable_argsort sample_data)))
             (fst (snd (projr (risk_chart_entries stable_argsort sample_data))))) =
   mset (map (\<lambda>b. (the (building_name b), the (fire_risk_score b))) sample_data)"
proof -
  let ?e = "risk_chart_entries stable_argsort sample_data"
  have "\<exists>x. ?e = Inr x" by (simp add: eval_defs)
  then obtain names scores colors where r: "?e = Inr (names, scores, colors)"
    by (metis prod_cases3)
  from sort_keeps_pairs [OF stable_argsort_contract r] r show ?thesis by simp
qed

subsection \<open>The files of a run\<close>




text \<open>
  C5, as amended. The claim says no file but the two images is ever written. What holds,
  for every run, one that ends in an exception included: every path other than
  \<open>buildings.json\<close> and the two images keeps its content; \<open>buildings.json\<close> keeps its content
  when it exists at the start; and when it does not exist (and can be written) the run
  writes the sample records into it.
\<close>

theorem main_file_effects:
  "(p \<notin> {buildings_file, ''risk_scores_chart.png'', ''risk_scores_by_type_chart.png''} \<longrightarrow>
      files (snd (main np_argsort w)) p = files w p) \<and>
   (files w buildings_file \<noteq> None \<longrightarrow>
      files (snd (main np_argsort w)) buildings_file = files w buildings_file) \<and>
   (files w buildings_file = None \<and> write_error w buildings_file = None \<longrightarrow>
      files (snd (main np_argsort w)) buildings_file = Some (JsonFile sample_data))"
proof (intro conjI impI)
  assume "p \<notin> {buildings_file, ''risk_scores_chart.png'', ''risk_scores_by_type_chart.png''}"
  then show "files (snd (main np_argsort w)) p = files w p"
    by (intro main_frame) simp_all
next
  assume "files w buildings_file \<noteq> None"
  then show "files (snd (main np_argsort w)) buildings_file = files w buildings_file"
    by (rule main_keeps_buildings_file)
next
  assume a: "files w buildings_file = None \<and> write_error w buildings_file = None"
  let ?w1 = "snd (create_sample_if_missing w)"
  from a have w1: "files ?w1 buildings_file = Some (JsonFile sample_data)"
    by (simp add: create_sample_if_missing_def write_file_cases)
  have "files (snd (main np_argsort w)) buildings_file = files ?w1 buildings_file"
    by (simp add: main_steps Let_def buildings_file_def
        create_risk_score_chart_frame create_building_type_chart_frame split: sum.splits)
  with w1 show "files (snd (main np_argsort w)) buildings_file = Some (JsonFile sample_data)"
    by simp
qed

text \<open>The theorem at the directory of the two offices and at the directory without files.\<close>

theorem main_file_effects_witness:
  "files (snd (main stable_argsort (directory_with two_offices))) ''notes.txt'' = None \<and>
   files (snd (main stable_argsort (directory_with two_offices))) buildings_file
     = Some (JsonFile two_offices) \<and>
   files (snd (main stable_argsort no_files)) buildings_file = Some (JsonFile sample_data)"
proof -
  have a: "''notes.txt'' \<notin> {buildings_file, ''risk_scores_chart.png'', ''risk_scores_by_type_chart.png''}"
    "files (directory_with two_offices) ''notes.txt'' = None"
    "files (directory_with two_offices) buildings_file = Some (JsonFile two_offices)"
    "files no_files buildings_file = None \<and> write_error no_files buildings_file = None"
    by (simp_all add: directory_with_def no_files_def buildings_file_def)
  from main_file_effects [of "''notes.txt''" stable_argsort "directory_with two_offices"]
    main_file_effects [of "''notes.txt''" stable_argsort no_files] a
  show ?thesis by simp
qed

text \<open>
  The claim as stated fails: started in a directory without files, the run writes
  \<open>buildings.json\<close>, which is neither of the two images.
\<close>

theorem sample_file_written_counterexample:
  "files no_files ''buildings.json'' = None \<and>
   files (snd (main stable_argsort no_files)) ''buildings.json'' = Some (JsonFile sample_data)"
  by (simp add: eval_defs)

subsection \<open>Exceptions\<close>

text \<open>
  C4. The only exception handler is the blanket catch around the call of
  \<open>create_building_type_chart\<close>. An exception leaves \<open>main\<close> exactly when it is raised by
  one of the steps outside the handler: creating the sample file, loading the JSON file, or
  creating the overall chart. An exception raised inside \<open>create_building_type_chart\<close> is
  caught: \<open>main\<close> prints the message and goes on to its closing lines.
\<close>

theorem main_exceptions:
  "(fst (main np_argsort w) = Inl e \<longleftrightarrow>
      fst (create_sample_if_missing w) = Inl e \<or>
      fst (create_sample_if_missing w) = Inr () \<and>
      (load_buildings_data buildings_file (snd (create_sample_if_missing w)) = Inl e \<or>
       (\<exists>buildings_data.
          load_buildings_data buildings_file (snd (create_sample_if_missing w))
            = Inr buildings_data \<and>
          fst (create_risk_score_chart np_argsort buildings_data ''risk_scores_chart.png''
                 (snd (create_sample_if_missing w))) = Inl e))) \<and>
   (fst (create_sample_if_missing w) = Inr () \<and>
    load_buildings_data buildings_file (snd (create_sample_if_missing w)) = Inr data \<and>
    create_risk_score_chart np_argsort data ''risk_scores_chart.png''
      (snd (create_sample_if_missing w)) = (Inr r, w2) \<and>
    create_building_type_chart data ''risk_scores_by_type_chart.png'' w2 = (Inl e', w3) \<longrightarrow>
      main np_argsort w =
        (Inr (), closing_lines (print (''Couldn't create grouped chart: '' @ str_error e') w3)))"
proof (intro conjI impI)
  show "fst (main np_argsort w) = Inl e \<longleftrightarrow>
      fst (create_sample_if_missing w) = Inl e \<or>
      fst (create_sample_if_missing w) = Inr () \<and>
      (load_buildings_data buildings_file (snd (create_sample_if_missing w)) = Inl e \<or>
       (\<exists>buildings_data.
          load_buildings_data buildings_file (snd (create_sample_if_missing w))
            = Inr buildings_data \<and>
          fst (create_risk_score_chart np_argsort buildings_data ''risk_scores_chart.png''
                 (snd (create_sample_if_missing w))) = Inl e))"
    by (auto simp: main_steps Let_def split: sum.splits)
next
  assume a: "fst (create_sample_if_missing w) = Inr () \<and>
    load_buildings_data buildings_file (snd (create_sample_if_missing w)) = Inr data \<and>
    create_risk_score_chart np_argsort data ''risk_scores_chart.png''
      (snd (create_sample_if_missing w)) = (Inr r, w2) \<and>
    create_building_type_chart data ''risk_scores_by_type_chart.png'' w2 = (Inl e', w3)"
  then show "main np_argsort w =
        (Inr (), closing_lines (print (''Couldn't create grouped chart: '' @ str_error e') w3))"
    by (simp add: main_steps Let_def)
qed

text \<open>
  The theorem at three directories: one whose \<open>buildings.json\<close> is not JSON (the
  \<open>ValueError\<close> of the load leaves \<open>main\<close>), one whose record has no name (the \<open>KeyError\<close>
  of the overall chart leaves \<open>main\<close>), and one with an empty list of records (the
  \<open>IndexError\<close> of the grouped chart is caught and the run goes on).
\<close>

theorem main_exceptions_witness:
  "fst (main stable_argsort (no_files\<lparr>files := [buildings_file \<mapsto> OtherFile]\<rparr>)) = Inl ValueError \<and>
   fst (main stable_argsort
     (directory_with [\<lparr>building_name = None, fire_risk_score = Some 5, building_type = None\<rparr>]))
     = Inl (KeyError ''building_name'') \<and>
   fst (main stable_argsort (directory_with [])) = Inr () \<and>
   stdout (snd (main stable_argsort (directory_with []))) =
     [''Chart saved as risk_scores_chart.png'',
      ''Couldn't create grouped chart: list index out of range'',
      ''Visualization complete!'',
      ''The following files were generated:'',
      ''- risk_scores_chart.png'',
      ''- risk_scores_by_type_chart.png'']"
proof -
  let ?g = "no_files\<lparr>files := [buildings_file \<mapsto> OtherFile]\<rparr>"
  let ?shed = "[\<lparr>building_name = None, fire_risk_score = Some 5, building_type = None\<rparr>]"
  let ?k = "directory_with ?shed"
  let ?d = "directory_with []"
  let ?w2 = "snd (create_risk_score_chart stable_argsort [] ''risk_scores_chart.png'' ?d)"
  have g: "fst (create_sample_if_missing ?g) = Inr ()"
    "load_buildings_data buildings_file (snd (create_sample_if_missing ?g)) = Inl ValueError"
    by (simp_all add: eval_defs)
  have k: "fst (create_sample_if_missing ?k) = Inr ()"
    "load_buildings_data buildings_file (snd (create_sample_if_missing ?k)) = Inr ?shed"
    "fst (create_risk_score_chart stable_argsort ?shed ''risk_scores_chart.png''
           (snd (create_sample_if_missing ?k))) = Inl (KeyError ''building_name'')"
    by (simp_all add: eval_defs)
  have d: "fst (create_sample_if_missing ?d) = Inr ()"
    "snd (create_sample_if_missing ?d) = ?d"
    "load_buildings_data buildings_file ?d = Inr []"
    "fst (create_risk_score_chart stable_argsort [] ''risk_scores_chart.png'' ?d) = Inr Plt"
    "create_building_type_chart [] ''risk_scores_by_type_chart.png'' ?w2 = (Inl IndexError, ?w2)"
    "stdout ?w2 = [''Chart saved as risk_scores_chart.png'']"
    by (simp_all add: eval_defs)
  from d(4) have d4: "create_risk_score_chart stable_argsort [] ''risk_scores_chart.png'' ?d
      = (Inr Plt, ?w2)" by (simp add: prod_eq_iff)
  from main_exceptions [of stable_argsort ?g ValueError] g
  have 1: "fst (main stable_argsort ?g) = Inl ValueError" by blast
  from main_exceptions [of stable_argsort ?k "KeyError ''building_name''"] k
  have 2: "fst (main stable_argsort ?k) = Inl (KeyError ''building_name'')" by blast
  from main_exceptions [of stable_argsort ?d _ "[]" Plt ?w2 IndexError ?w2] d(1,2,3,5) d4
  have 3: "main stable_argsort ?d =
     (Inr (), closing_lines (print (''Couldn't create grouped chart: '' @ str_error IndexError) ?w2))"
    by simp
  from 3 d(6) have 4: "stdout (snd (main stable_argsort ?d)) =
     [''Chart saved as risk_scores_chart.png'',
      ''Couldn't create grouped chart: list index out of range'',
      ''Visualization complete!'',
      ''The following files were generated:'',
      ''- risk_scores_chart.png'',
      ''- risk_scores_by_type_chart.png'']"
    by (simp add: closing_lines_def)
  from 3 have 5: "fst (main stable_argsort ?d) = Inr ()" by simp
  from 1 2 4 5 show ?thesis by blast
qed



text \<open>
  C10. \<open>create_building_type_chart\<close> decides from the first record alone whether to skip:
  on an empty list it raises \<open>IndexError\<close>; on a list with a first record it returns \<open>None\<close>
  if and only if that record has no building type, whatever the later records are; and
  when it skips, the outcome is the same for any later records.
\<close>

theorem skip_decided_by_first_record:
  "create_building_type_chart [] out w = (Inl IndexError, w) \<and>
   (fst (create_building_type_chart (b # rest) out w) = Inr PyNone)
     = (building_type b = None) \<and>
   (building_type b = None \<longrightarrow>
      create_building_type_chart (b # rest) out w =
        (Inr PyNone,
         print ''Building type information not available. Skipping grouped chart.'' w) \<and>
      create_building_type_chart (b # rest) out w = create_building_type_chart (b # rest') out w)"
proof (intro conjI impI)
  show "create_building_type_chart [] out w = (Inl IndexError, w)"
    by (simp add: create_building_type_chart_def index_def)
  show "(fst (create_building_type_chart (b # rest) out w) = Inr PyNone)
     = (building_type b = None)"
    by (auto simp: create_building_type_chart_def index_def write_file_cases
          split: sum.splits)
next
  assume n: "building_type b = None"
  then show "create_building_type_chart (b # rest) out w =
        (Inr PyNone,
         print ''Building type information not available. Skipping grouped chart.'' w)"
    by (simp add: create_building_type_chart_def index_def)
  from n show "create_building_type_chart (b # rest) out w
      = create_building_type_chart (b # rest') out w"
    by (simp add: create_building_type_chart_def index_def)
qed

text \<open>
  The theorem at the barn followed by the two offices (skipped, though the later records
  have a type) and at the two offices followed by the barn (not skipped, though the last
  record has no type).
\<close>

theorem skip_decided_by_first_record_witness:
  "fst (create_building_type_chart (untyped_barn @ two_offices) ''by_type.png'' no_files)
     = Inr PyNone \<and>
   create_building_type_chart (untyped_barn @ two_offices) ''by_type.png'' no_files
     = create_building_type_chart untyped_barn ''by_type.png'' no_files \<and>
   fst (create_building_type_chart (two_offices @ untyped_barn) ''by_type.png'' no_files)
     \<noteq> Inr PyNone"
proof -
  let ?barn = "\<lparr>building_name = Some ''Barn'', fire_risk_score = Some 40, building_type = None\<rparr>"
  let ?annex = "\<lparr>building_name = Some ''Annex'', fire_risk_score = Some 10,
       building_type = Some ''Office''\<rparr>"
  have a: "building_type ?barn = None" by simp
  have b: "building_type ?annex \<noteq> None" by simp
  from skip_decided_by_first_record [of "''by_type.png''" no_files ?barn two_offices "[]"] a
  have c: "fst (create_building_type_chart (?barn # two_offices) ''by_type.png'' no_files)
     = Inr PyNone"
    "create_building_type_chart (?barn # two_offices) ''by_type.png'' no_files
     = create_building_type_chart [?barn] ''by_type.png'' no_files"
    by blast+
  from skip_decided_by_first_record [of "''by_type.png''" no_files ?annex
      "tl two_offices @ untyped_barn" "[]"] b
  have d: "fst (create_building_type_chart (?annex # tl two_offices @ untyped_barn)
      ''by_type.png'' no_files) \<noteq> Inr PyNone" by simp
  have 1: "fst (create_building_type_chart (untyped_barn @ two_offices) ''by_type.png'' no_files)
     = Inr PyNone"
    "create_building_type_chart (untyped_barn @ two_offices) ''by_type.png'' no_files
     = create_building_type_chart untyped_barn ''by_type.png'' no_files"
    using c by (simp_all add: untyped_barn_def)
  have 2: "fst (create_building_type_chart (two_offices @ untyped_barn) ''by_type.png'' no_files)
     \<noteq> Inr PyNone"
    using d by (simp add: two_offices_def)
  from 1 2 show ?thesis by blast
qed

subsection \<open>The chart depends on the records only\<close>

text \<open>
  C7. The colour classifier and the descending sort are functions of their arguments: lines
  13 to 20 and 25 to 34 of the source read and write nothing but their arguments, so
  \<open>get_color_mapping\<close> and \<open>risk_chart_entries\<close> take no world. Two runs of
  \<open>create_risk_score_chart\<close> on the same records in any two worlds agree: they raise the same
  \<open>KeyError\<close> or none, and when both return, they return the same value and save the same
  figure, whose bar colours are those of \<open>get_color_mapping\<close> at the bar heights; the run
  changes the saved file and the printed lines and nothing else of the world.
\<close>

theorem chart_same_in_every_world:
  "(fst (create_risk_score_chart np_argsort buildings_data out w1) = Inl (KeyError k))
     = (fst (create_risk_score_chart np_argsort buildings_data out w2) = Inl (KeyError k)) \<and>
   (create_risk_score_chart np_argsort buildings_data out w1 = (Inr r1, w1') \<and>
    create_risk_score_chart np_argsort buildings_data out w2 = (Inr r2, w2') \<longrightarrow>
      r1 = r2 \<and> files w1' out = files w2' out \<and>
      (\<exists>names scores.
         files w1' out = Some (PngFile
           (risk_score_figure names scores (map get_color_mapping scores)))) \<and>
      (\<forall>p. p \<noteq> out \<longrightarrow> files w1' p = files w1 p) \<and>
      write_error w1' = write_error w1 \<and>
      stdout w1' = stdout w1 @ [''Chart saved as '' @ out])"
proof (intro conjI impI)
  have "(fst (create_risk_score_chart np_argsort buildings_data out w) = Inl (KeyError k))
     = (risk_chart_entries np_argsort buildings_data = Inl (KeyError k))" for w
    by (auto simp: create_risk_score_chart_def write_file_cases split: sum.splits)
  then show "(fst (create_risk_score_chart np_argsort buildings_data out w1) = Inl (KeyError k))
     = (fst (create_risk_score_chart np_argsort buildings_data out w2) = Inl (KeyError k))"
    by simp
next
  assume a: "create_risk_score_chart np_argsort buildings_data out w1 = (Inr r1, w1') \<and>
    create_risk_score_chart np_argsort buildings_data out w2 = (Inr r2, w2')"
  then obtain names scores colors where
    e: "risk_chart_entries np_argsort buildings_data = Inr (names, scores, colors)"
    by (auto simp: create_risk_score_chart_def split: sum.splits)
  have col: "colors = map get_color_mapping scores"
    using e by (auto simp: risk_chart_entries_def Let_def split: sum.splits)
  let ?fig = "risk_score_figure names scores (map get_color_mapping scores)"
  from a e col have 1: "r1 = Plt" "r2 = Plt"
    "w1' = print (''Chart saved as '' @ out) (w1\<lparr>files := (files w1)(out \<mapsto> PngFile ?fig)\<rparr>)"
    "w2' = print (''Chart saved as '' @ out) (w2\<lparr>files := (files w2)(out \<mapsto> PngFile ?fig)\<rparr>)"
    by (auto simp: create_risk_score_chart_def write_file_cases split: if_splits)
  from 1 show "r1 = r2" by simp
  from 1 show "files w1' out = files w2' out" by simp
  from 1 show "\<exists>names scores.
         files w1' out = Some (PngFile
           (risk_score_figure names scores (map get_color_mapping scores)))"
    by auto
  from 1 show "\<forall>p. p \<noteq> out \<longrightarrow> files w1' p = files w1 p" by simp
  from 1 show "write_error w1' = write_error w1" by simp
  from 1 show "stdout w1' = stdout w1 @ [''Chart saved as '' @ out]" by simp
qed

text \<open>
  The theorem at the two offices, charted once in a directory without files and once in a
  directory that holds the sample records.
\<close>

theorem chart_same_in_every_world_witness:
  "files (snd (create_risk_score_chart stable_argsort two_offices ''overall.png'' no_files))
     ''overall.png'' =
   files (snd (create_risk_score_chart stable_argsort two_offices ''overall.png''
     (directory_with sample_data))) ''overall.png''"
proof -
  let ?s1 = "create_risk_score_chart stable_argsort two_offices ''overall.png'' no_files"
  let ?s2 = "create_risk_score_chart stable_argsort two_offices ''overall.png''
     (directory_with sample_data)"
  have "fst ?s1 = Inr Plt" by (simp add: eval_defs)
  then have r1: "?s1 = (Inr Plt, snd ?s1)" by (simp add: prod_eq_iff)
  have "fst ?s2 = Inr Plt" by (simp add: eval_defs)
  then have r2: "?s2 = (Inr Plt, snd ?s2)" by (simp add: prod_eq_iff)
  from chart_same_in_every_world [of stable_argsort two_offices "''overall.png''" no_files _
      "directory_with sample_data" Plt "snd ?s1" Plt "snd ?s2"] r1 r2
  show ?thesis by blast
qed

end
